theory Spec2Isabelle
  imports Main
begin

unbundle bit_operations_syntax

section \<open>Strings of the two clients\<close>

text \<open>
  The repository holds the same protocol client twice: the JavaScript class
  \<^verbatim>\<open>CompanytecClient\<close> (companytec-client.js) with its menu, monitor and HTTP examples,
  and a Go port (package \<^verbatim>\<open>companytec\<close>, with an HTTP server in package \<^verbatim>\<open>api\<close>).

  A string is a list of characters whose codes are below 256. A JavaScript string stores
  one UTF-16 code unit per such character, so \<^verbatim>\<open>length\<close> and \<^verbatim>\<open>charCodeAt\<close> are the list
  length and the character code. A Go string stores the UTF-8 encoding: \<^verbatim>\<open>len\<close> counts
  one byte for a code below 128 and two bytes for the others, while a conversion to
  \<^verbatim>\<open>[]rune\<close> and the width of a \<^verbatim>\<open>%s\<close> verb count characters.
\<close>

definition charCodes :: "string \<Rightarrow> nat list" where
  "charCodes s = map of_char s"

definition isAscii :: "string \<Rightarrow> bool" where
  "isAscii s = list_all (\<lambda>c. (of_char c :: nat) < 128) s"

subsection \<open>JavaScript string primitives\<close>

text \<open>
  \<^verbatim>\<open>String.prototype.substring(start, end)\<close>: both indices are clamped to the range from 0
  to the length and swapped when the first exceeds the second; it never throws.
\<close>

definition clampIndex :: "string \<Rightarrow> int \<Rightarrow> nat" where
  "clampIndex s i = nat (min (max i 0) (int (length s)))"

definition substring :: "string \<Rightarrow> int \<Rightarrow> int \<Rightarrow> string" where
  "substring s start end =
     (let a = clampIndex s start; b = clampIndex s end;
          from = min a b; to = max a b
      in take (to - from) (drop from s))"

text \<open>
  \<^verbatim>\<open>String.prototype.padStart(targetLength, padString)\<close>: the pad string is repeated and cut
  to the missing length; a string that is long enough already is returned whole.
\<close>

definition padStart :: "string \<Rightarrow> nat \<Rightarrow> string \<Rightarrow> string" where
  "padStart s targetLength padString =
     (if targetLength \<le> length s \<or> padString = [] then s
      else let fillLen = targetLength - length s
           in take fillLen (concat (replicate fillLen padString)) @ s)"

text \<open>\<^verbatim>\<open>Number.prototype.toString(16)\<close> on a non-negative integer: lower-case digits, no padding.\<close>

definition digitLower :: "nat \<Rightarrow> char" where
  "digitLower d = ''0123456789abcdef'' ! d"

function toString16 :: "nat \<Rightarrow> string" where
  "toString16 n = (if n < 16 then [digitLower n] else toString16 (n div 16) @ [digitLower (n mod 16)])"
  by pat_completeness auto
termination
  by (relation "measure (\<lambda>n. n)") auto

text \<open>
  \<^verbatim>\<open>toUpperCase\<close> on the letters a to z; the client applies it to the output of
  \<^verbatim>\<open>toString(16)\<close> only, whose characters are decimal digits and the letters a to f.
\<close>

definition upperChar :: "char \<Rightarrow> char" where
  "upperChar c =
     (if (97::nat) \<le> of_char c \<and> (of_char c :: nat) \<le> 122 then char_of (of_char c - (32::nat)) else c)"

definition toUpperCase :: "string \<Rightarrow> string" where
  "toUpperCase s = map upperChar s"

subsection \<open>Go formatting primitives\<close>

text \<open>
  \<^verbatim>\<open>fmt.Sprintf("%0wX", n)\<close> prints a non-negative integer in upper-case hexadecimal,
  padded on the left with zeros to width w. \<^verbatim>\<open>fmt.Sprintf("%0ws", s)\<close> pads a string on
  the left with zeros to width w, the width being counted in characters.
\<close>

definition digitUpper :: "nat \<Rightarrow> char" where
  "digitUpper d = ''0123456789ABCDEF'' ! d"

function formatX :: "nat \<Rightarrow> string" where
  "formatX n = (if n < 16 then [digitUpper n] else formatX (n div 16) @ [digitUpper (n mod 16)])"
  by pat_completeness auto
termination
  by (relation "measure (\<lambda>n. n)") auto

definition sprintf0X :: "nat \<Rightarrow> nat \<Rightarrow> string" where
  "sprintf0X width n = replicate (width - length (formatX n)) CHR ''0'' @ formatX n"

definition sprintf0s :: "nat \<Rightarrow> string \<Rightarrow> string" where
  "sprintf0s width s = replicate (width - length s) CHR ''0'' @ s"

definition utf8Len :: "string \<Rightarrow> nat" where
  "utf8Len s = sum_list (map (\<lambda>c. if (of_char c :: nat) < 128 then 1 else 2) s)"

section \<open>FrameCodec: checksum and command frames\<close>

text \<open>
  \<^verbatim>\<open>calculateChecksum(command)\<close> of companytec-client.js: the loop starts at index 1 and
  adds \<^verbatim>\<open>command.charCodeAt(i)\<close>; the result is
  \<^verbatim>\<open>(sum & 0xff).toString(16).toUpperCase().padStart(2, "0")\<close>. The loop is written over the
  sequence of character codes, so that it also covers code units above 255. The sum is
  an exact integer (a string is far too short for it to reach 2 to the power 53), and
  the conversion of the operands of \<^verbatim>\<open>&\<close> to 32 bits keeps the low 8 bits, so \<^verbatim>\<open>sum & 0xff\<close>
  is the bitwise conjunction on the natural numbers.
\<close>

function sumCodesFrom :: "nat list \<Rightarrow> nat \<Rightarrow> nat \<Rightarrow> nat" where
  "sumCodesFrom codes i acc =
     (if i < length codes then sumCodesFrom codes (i + 1) (acc + codes ! i) else acc)"
  by pat_completeness auto
termination
  by (relation "measure (\<lambda>(codes, i, acc). length codes - i)") auto

definition checksumOfCodes :: "nat list \<Rightarrow> string" where
  "checksumOfCodes codes =
     padStart (toUpperCase (toString16 (sumCodesFrom codes 1 0 AND 255))) 2 ''0''"

definition calculateChecksum :: "string \<Rightarrow> string" where
  "calculateChecksum command = checksumOfCodes (charCodes command)"

definition buildCommand :: "string \<Rightarrow> string \<Rightarrow> string" where
  "buildCommand header parameters =
     (let commandBody = ''('' @ header @ parameters;
          checksum = calculateChecksum commandBody
      in commandBody @ checksum @ '')'')"

text \<open>
  The Go port: \<^verbatim>\<open>runes := []rune(command)\<close>, the same loop from index 1 over the runes, and
  \<^verbatim>\<open>fmt.Sprintf("%02X", sum&0xff)\<close>.
\<close>

definition goChecksumOfRunes :: "nat list \<Rightarrow> string" where
  "goChecksumOfRunes runes = sprintf0X 2 (sumCodesFrom runes 1 0 AND 255)"

definition goCalculateChecksum :: "string \<Rightarrow> string" where
  "goCalculateChecksum command = goChecksumOfRunes (charCodes command)"

definition BuildCommand :: "string \<Rightarrow> string \<Rightarrow> string" where
  "BuildCommand header parameters =
     (let commandBody = ''('' @ header @ parameters;
          checksum = goCalculateChecksum commandBody
      in commandBody @ checksum @ '')'')"

text \<open>
  The checksum in the words of the specification: the sum of the character codes after
  the first character, reduced modulo 256, as two upper-case hexadecimal digits.
\<close>

definition twoHexDigits :: "nat \<Rightarrow> string" where
  "twoHexDigits v = [digitUpper (v div 16), digitUpper (v mod 16)]"

definition specChecksum :: "nat list \<Rightarrow> string" where
  "specChecksum codes = twoHexDigits (sum_list (drop 1 codes) mod 256)"

section \<open>TransportSession\<close>

text \<open>
  What the network does during one call is a parameter of the model: the outcome of a
  dial, whether a write fails, and what the socket delivers before the deadline of the
  call: chunks of reply data (none at all when the device stays silent) and, for the
  JavaScript client, the close and error events of the socket.
\<close>

datatype dial = Dialed nat | DialError string

subsection \<open>The JavaScript client\<close>

text \<open>
  The fields \<^verbatim>\<open>client\<close> (the socket object, numbered in creation order, \<^verbatim>\<open>null\<close> at first)
  and \<^verbatim>\<open>connected\<close> of the class; \<open>sockets\<close> counts the sockets created so far and
  \<open>written\<close> records the strings handed to \<^verbatim>\<open>client.write\<close>.
\<close>

datatype js_error = Error string | TypeError string

record js_client =
  client :: "nat option"
  connected :: bool
  sockets :: nat
  written :: "string list"

datatype socket_event = Data string | Close | SocketError string

definition newJsClient :: js_client where
  "newJsClient = \<lparr>client = None, connected = False, sockets = 0, written = []\<rparr>"

text \<open>
  \<^verbatim>\<open>connect()\<close> creates a new socket unconditionally and dials; the connect callback sets
  \<^verbatim>\<open>connected = true\<close> and resolves, the error handler sets \<^verbatim>\<open>connected = false\<close> and
  rejects.
\<close>

definition connect :: "js_client \<Rightarrow> dial \<Rightarrow> (js_error + unit) \<times> js_client" where
  "connect c d =
     (let c1 = c\<lparr>client := Some (sockets c), sockets := sockets c + 1\<rparr>
      in case d of
           Dialed h \<Rightarrow> (Inr (), c1\<lparr>connected := True\<rparr>)
         | DialError msg \<Rightarrow> (Inl (Error msg), c1\<lparr>connected := False\<rparr>))"

definition disconnect :: "js_client \<Rightarrow> js_client" where
  "disconnect c = (if client c \<noteq> None then c\<lparr>connected := False\<rparr> else c)"

text \<open>
  \<^verbatim>\<open>sendCommand(command)\<close>: rejects when not connected; otherwise writes the command, arms a
  timer of 5000 ms that rejects with "Response timeout", and resolves with the first
  \<^verbatim>\<open>data\<close> event (\<^verbatim>\<open>client.once("data", ...)\<close>). \<open>events\<close> is what the socket emits in the
  5000 ms after the write, in order. The handlers that \<^verbatim>\<open>connect()\<close> registered stay on the
  socket: a \<^verbatim>\<open>close\<close> or an \<^verbatim>\<open>error\<close> event sets \<^verbatim>\<open>connected = false\<close>, and the promise of
  \<^verbatim>\<open>sendCommand\<close> goes on waiting for data or for the timer.
\<close>

fun awaitResponse :: "js_client \<Rightarrow> socket_event list \<Rightarrow> (js_error + string) \<times> js_client" where
  "awaitResponse c [] = (Inl (Error ''Response timeout''), c)"
| "awaitResponse c (Data d # later) = (Inr d, c)"
| "awaitResponse c (Close # later) = awaitResponse (c\<lparr>connected := False\<rparr>) later"
| "awaitResponse c (SocketError msg # later) = awaitResponse (c\<lparr>connected := False\<rparr>) later"

definition sendCommand :: "js_client \<Rightarrow> string \<Rightarrow> socket_event list \<Rightarrow> (js_error + string) \<times> js_client" where
  "sendCommand c command events =
     (if \<not> connected c then (Inl (Error ''Not connected to device''), c)
      else case client c of
             None \<Rightarrow> (Inl (TypeError ''Cannot read properties of null''), c)
           | Some sock \<Rightarrow> awaitResponse (c\<lparr>written := written c @ [command]\<rparr>) events)"

subsection \<open>The Go client\<close>

text \<open>
  The fields \<^verbatim>\<open>conn\<close>, \<^verbatim>\<open>connected\<close> and \<^verbatim>\<open>mu\<close> of \<^verbatim>\<open>Client\<close>; \<open>mu\<close> is true while the mutex is
  held and \<open>sent\<close> records the commands written to the connection. A \<^verbatim>\<open>sync.Mutex\<close> is not
  reentrant: \<^verbatim>\<open>Lock\<close> on a mutex that the calling goroutine holds never returns, which is the
  outcome \<open>Blocked\<close>.
\<close>

record go_client =
  conn :: "nat option"
  connectedGo :: bool
  mu :: bool
  sent :: "string list"

datatype 'a go_outcome = Returned 'a go_client | Blocked go_client

fun clientAfter :: "'a go_outcome \<Rightarrow> go_client" where
  "clientAfter (Returned r c) = c"
| "clientAfter (Blocked c) = c"

definition NewClient :: go_client where
  "NewClient = \<lparr>conn = None, connectedGo = False, mu = False, sent = []\<rparr>"

definition Connect :: "go_client \<Rightarrow> dial \<Rightarrow> (string option) go_outcome" where
  "Connect c d =
     (if mu c then Blocked c
      else let c1 = c\<lparr>mu := True\<rparr>
           in if connectedGo c1 \<and> conn c1 \<noteq> None then Returned None (c1\<lparr>mu := False\<rparr>)
              else case d of
                     DialError err \<Rightarrow> Returned (Some err) (c1\<lparr>mu := False\<rparr>)
                   | Dialed h \<Rightarrow> Returned None (c1\<lparr>conn := Some h, connectedGo := True, mu := False\<rparr>))"

definition Disconnect :: "go_client \<Rightarrow> unit go_outcome" where
  "Disconnect c =
     (if mu c then Blocked c
      else let c1 = c\<lparr>mu := True\<rparr>;
               c2 = (if conn c1 \<noteq> None then c1\<lparr>conn := None\<rparr> else c1)
           in Returned () (c2\<lparr>connectedGo := False, mu := False\<rparr>))"

definition IsConnected :: "go_client \<Rightarrow> bool go_outcome" where
  "IsConnected c = (if mu c then Blocked c else Returned (connectedGo c) c)"

text \<open>
  \<^verbatim>\<open>bufio.Reader.ReadString(delim)\<close> over the chunks that arrive before the deadline: it
  returns the data up to and including the first delimiter, or, when the chunks end
  without one, the data read so far together with the error \<open>rerr\<close> that ended the read
  (the deadline or the end of the connection).
\<close>

fun ReadString :: "char \<Rightarrow> string \<Rightarrow> string list \<Rightarrow> string \<Rightarrow> string \<times> string option" where
  "ReadString delim rerr [] acc = (acc, Some rerr)"
| "ReadString delim rerr (chunk # rest) acc =
     (if delim \<in> set chunk then (acc @ takeWhile (\<lambda>c. c \<noteq> delim) chunk @ [delim], None)
      else ReadString delim rerr rest (acc @ chunk))"

text \<open>
  \<^verbatim>\<open>SendCommand(command)\<close>: locks, checks the connection, writes, reads up to the closing
  parenthesis. On a write error, and on a read error with no data, it calls
  \<^verbatim>\<open>c.Disconnect()\<close> while it still holds \<^verbatim>\<open>c.mu\<close>. On a read error after some data it
  falls through and returns the partial data with a nil error. \<open>werr\<close> is the error of
  the write, if any.
\<close>

definition SendCommand ::
    "go_client \<Rightarrow> string \<Rightarrow> string option \<Rightarrow> string list \<Rightarrow> string \<Rightarrow> (string \<times> string option) go_outcome" where
  "SendCommand c command werr chunks rerr =
     (if mu c then Blocked c
      else let c1 = c\<lparr>mu := True\<rparr>
           in if \<not> connectedGo c1 \<or> conn c1 = None
              then Returned ('''', Some ''not connected to device'') (c1\<lparr>mu := False\<rparr>)
              else case werr of
                     Some err \<Rightarrow>
                       (case Disconnect c1 of
                          Blocked c2 \<Rightarrow> Blocked c2
                        | Returned u c2 \<Rightarrow> Returned ('''', Some (''write error: '' @ err)) (c2\<lparr>mu := False\<rparr>))
                   | None \<Rightarrow>
                       (let c2 = c1\<lparr>sent := sent c1 @ [command]\<rparr>
                        in case ReadString CHR '')'' rerr chunks '''' of
                             (response, Some err) \<Rightarrow>
                               if response = ''''
                               then (case Disconnect c2 of
                                       Blocked c3 \<Rightarrow> Blocked c3
                                     | Returned u c3 \<Rightarrow>
                                         Returned ('''', Some (''read error: '' @ err)) (c3\<lparr>mu := False\<rparr>))
                               else Returned (response, None) (c2\<lparr>mu := False\<rparr>)
                           | (response, None) \<Rightarrow> Returned (response, None) (c2\<lparr>mu := False\<rparr>)))"

section \<open>CommandCatalog: the typed operations\<close>

text \<open>
  Each operation of companytec-client.js builds its command and awaits
  \<^verbatim>\<open>this.sendCommand(command)\<close>. Four of them use a string literal instead of
  \<^verbatim>\<open>buildCommand\<close>.
\<close>

definition increment :: "js_client \<Rightarrow> socket_event list \<Rightarrow> (js_error + string) \<times> js_client" where
  "increment c events = (let command = ''(&I)'' in sendCommand c command events)"

definition getVisualization :: "js_client \<Rightarrow> socket_event list \<Rightarrow> (js_error + string) \<times> js_client" where
  "getVisualization c events = (let command = ''(&V)'' in sendCommand c command events)"

definition getStatus :: "js_client \<Rightarrow> socket_event list \<Rightarrow> (js_error + string) \<times> js_client" where
  "getStatus c events = (let command = ''(&S)'' in sendCommand c command events)"

definition readCalendar :: "js_client \<Rightarrow> socket_event list \<Rightarrow> (js_error + string) \<times> js_client" where
  "readCalendar c events = (let command = ''(&R)'' in sendCommand c command events)"

text \<open>
  \<^verbatim>\<open>changePrice(nozzle, level, price)\<close> and \<^verbatim>\<open>setPreset(nozzle, value)\<close>: the value is padded
  with \<^verbatim>\<open>padStart\<close> and interpolated into the parameters; nothing is checked. The
  parameters are strings, on which \<^verbatim>\<open>toString()\<close> is the identity. The command that each
  of them builds (the constant \<^verbatim>\<open>command\<close> of the source) is named on its own.
\<close>

definition changePriceCommand :: "string \<Rightarrow> string \<Rightarrow> string \<Rightarrow> string" where
  "changePriceCommand nozzle level price =
     (let priceStr = padStart price 4 ''0''
      in buildCommand ''&U'' (nozzle @ level @ ''0'' @ priceStr))"

definition changePrice ::
    "js_client \<Rightarrow> string \<Rightarrow> string \<Rightarrow> string \<Rightarrow> socket_event list \<Rightarrow> (js_error + string) \<times> js_client" where
  "changePrice c nozzle level price events = sendCommand c (changePriceCommand nozzle level price) events"

definition setPresetCommand :: "string \<Rightarrow> string \<Rightarrow> string" where
  "setPresetCommand nozzle val =
     (let valueStr = padStart val 6 ''0''
      in buildCommand ''&P'' (nozzle @ valueStr))"

definition setPreset ::
    "js_client \<Rightarrow> string \<Rightarrow> string \<Rightarrow> socket_event list \<Rightarrow> (js_error + string) \<times> js_client" where
  "setPreset c nozzle val events = sendCommand c (setPresetCommand nozzle val) events"

text \<open>The same operations of the Go port.\<close>

definition Increment ::
    "go_client \<Rightarrow> string option \<Rightarrow> string list \<Rightarrow> string \<Rightarrow> (string \<times> string option) go_outcome" where
  "Increment c werr chunks rerr = SendCommand c ''(&I)'' werr chunks rerr"

definition GetVisualization ::
    "go_client \<Rightarrow> string option \<Rightarrow> string list \<Rightarrow> string \<Rightarrow> (string \<times> string option) go_outcome" where
  "GetVisualization c werr chunks rerr = SendCommand c ''(&V)'' werr chunks rerr"

definition GetStatus ::
    "go_client \<Rightarrow> string option \<Rightarrow> string list \<Rightarrow> string \<Rightarrow> (string \<times> string option) go_outcome" where
  "GetStatus c werr chunks rerr = SendCommand c ''(&S)'' werr chunks rerr"

definition ReadCalendar ::
    "go_client \<Rightarrow> string option \<Rightarrow> string list \<Rightarrow> string \<Rightarrow> (string \<times> string option) go_outcome" where
  "ReadCalendar c werr chunks rerr = SendCommand c ''(&R)'' werr chunks rerr"

text \<open>
  \<^verbatim>\<open>ChangePrice\<close> pads with \<^verbatim>\<open>fmt.Sprintf("%04s", price)\<close> when \<^verbatim>\<open>len(price) < 4\<close>, and
  \<^verbatim>\<open>SetPreset\<close> with \<^verbatim>\<open>"%06s"\<close> when \<^verbatim>\<open>len(value) < 6\<close>; \<^verbatim>\<open>len\<close> is the length in bytes.
\<close>

definition ChangePriceCommand :: "string \<Rightarrow> string \<Rightarrow> string \<Rightarrow> string" where
  "ChangePriceCommand nozzle level price =
     (let price1 = (if utf8Len price < 4 then sprintf0s 4 price else price);
          params = nozzle @ level @ ''0'' @ price1
      in BuildCommand ''&U'' params)"

definition ChangePrice ::
    "go_client \<Rightarrow> string \<Rightarrow> string \<Rightarrow> string \<Rightarrow> string option \<Rightarrow> string list \<Rightarrow> string
      \<Rightarrow> (string \<times> string option) go_outcome" where
  "ChangePrice c nozzle level price werr chunks rerr =
     SendCommand c (ChangePriceCommand nozzle level price) werr chunks rerr"

definition SetPresetCommand :: "string \<Rightarrow> string \<Rightarrow> string" where
  "SetPresetCommand nozzle val =
     (let value1 = (if utf8Len val < 6 then sprintf0s 6 val else val)
      in BuildCommand ''&P'' (nozzle @ value1))"

definition SetPreset ::
    "go_client \<Rightarrow> string \<Rightarrow> string \<Rightarrow> string option \<Rightarrow> string list \<Rightarrow> string
      \<Rightarrow> (string \<times> string option) go_outcome" where
  "SetPreset c nozzle val werr chunks rerr =
     SendCommand c (SetPresetCommand nozzle val) werr chunks rerr"

text \<open>
  The bytes on the wire. The JavaScript client writes with the encoding \<^verbatim>\<open>"ascii"\<close>, which
  stores the low byte of each code unit; the Go client writes \<^verbatim>\<open>[]byte(command)\<close>, the
  UTF-8 encoding.
\<close>

definition asciiBytes :: "string \<Rightarrow> nat list" where
  "asciiBytes s = map (\<lambda>c. of_char c mod 256) s"

definition utf8Bytes :: "string \<Rightarrow> nat list" where
  "utf8Bytes s =
     concat (map (\<lambda>c. let n = of_char c in if n < 128 then [n] else [192 + n div 64, 128 + n mod 64]) s)"

section \<open>ResponseInterpreters\<close>

subsection \<open>The parsers of the interactive test client\<close>

text \<open>
  The helper functions of the menu client (test-client.js in the README) print what
  they decode. The model returns the
  list of the lines given to \<^verbatim>\<open>console.log\<close>, in order; a line that starts with
  \<^verbatim>\<open>\n\<close> in the source starts with the character 10 here. Every string operation they
  use (\<^verbatim>\<open>substring\<close>, \<^verbatim>\<open>length\<close>, an index below the length) is total in JavaScript, so
  no parser has a branch that throws on a string.
\<close>

definition parseSupplyResponse :: "string \<Rightarrow> string list" where
  "parseSupplyResponse response =
     (if response = ''(0)'' then [''No supply data available.'']
      else let data = substring response 1 (int (length response) - 3)
           in if length data \<ge> 34
              then [CHR 0x0A # ''Supply Data:'',
                    ''  Total to Pay: '' @ substring data 0 6,
                    ''  Volume: '' @ substring data 6 12,
                    ''  Price: '' @ substring data 12 16,
                    ''  Comma Code: '' @ substring data 16 18,
                    ''  Supply Time: '' @ substring data 18 22,
                    ''  Nozzle Code: '' @ substring data 22 24,
                    ''  Day: '' @ substring data 24 26,
                    ''  Hour: '' @ substring data 26 28,
                    ''  Minute: '' @ substring data 28 30]
                   @ (if length data \<ge> 52
                      then [''  Month: '' @ substring data 30 32,
                            ''  Record: '' @ substring data 32 36,
                            ''  Final Total: '' @ substring data 36 46,
                            ''  Status: '' @ substring data 46 48]
                      else [])
              else [])"

definition parseSupplyIdentifiedResponse :: "string \<Rightarrow> string list" where
  "parseSupplyIdentifiedResponse response =
     (if response = ''(0)'' then [''No supply data available.'']
      else let data = substring response 2 (int (length response) - 3)
           in if length data \<ge> 70
              then [CHR 0x0A # ''Supply Data (Identified):'',
                    ''  Total: '' @ substring data 0 6,
                    ''  Volume: '' @ substring data 6 12,
                    ''  Price: '' @ substring data 12 16,
                    ''  Nozzle: '' @ substring data 22 24,
                    ''  Identifier: '' @ substring data 50 66]
              else [])"

text \<open>
  \<^verbatim>\<open>parseVisualizationResponse\<close>: the loop \<^verbatim>\<open>for (let i = 0; i < data.length; i += 8)\<close> prints
  one line per step, with no test that a whole window is left.
\<close>

function visualizationLines :: "string \<Rightarrow> nat \<Rightarrow> string list" where
  "visualizationLines data i =
     (if i < length data
      then (let nozzle = substring data (int i) (int i + 2);
                val = substring data (int i + 2) (int i + 8)
            in (''  Nozzle '' @ nozzle @ '': '' @ val) # visualizationLines data (i + 8))
      else [])"
  by pat_completeness auto
termination
  by (relation "measure (\<lambda>(data, i). length data - i)") auto

definition parseVisualizationResponse :: "string \<Rightarrow> string list" where
  "parseVisualizationResponse response =
     (if response = ''(0)'' then [''No dispensing in progress.'']
      else let data = substring response 1 (int (length response) - 1)
           in (CHR 0x0A # ''Ongoing Dispensing:'') # visualizationLines data 0)"

text \<open>\<^verbatim>\<open>parseStatusResponse\<close> and \<^verbatim>\<open>parseTotalResponse\<close> start with the slicing at once.\<close>

definition statusName :: "char \<Rightarrow> string" where
  "statusName code =
     (if code = CHR ''L'' then ''Available''
      else if code = CHR ''B'' then ''Blocked''
      else if code = CHR ''C'' then ''Finished''
      else if code = CHR ''A'' then ''Refueling''
      else if code = CHR ''E'' then ''Waiting''
      else if code = CHR ''F'' then ''Not present''
      else if code = CHR ''P'' then ''Ready''
      else ''Unknown'')"

function showNat :: "nat \<Rightarrow> string" where
  "showNat n = (if n < 10 then [''0123456789'' ! n] else showNat (n div 10) @ [''0123456789'' ! (n mod 10)])"
  by pat_completeness auto
termination
  by (relation "measure (\<lambda>n. n)") auto

function statusLines :: "string \<Rightarrow> nat \<Rightarrow> string list" where
  "statusLines statusCodes i =
     (if i < length statusCodes
      then (let code = statusCodes ! i;
                status = statusName code
            in (if code \<noteq> CHR ''F''
                then [''  Position '' @ showNat (i + 1) @ '': '' @ [code] @ '' ('' @ status @ '')'']
                else [])
               @ statusLines statusCodes (i + 1))
      else [])"
  by pat_completeness auto
termination
  by (relation "measure (\<lambda>(statusCodes, i). length statusCodes - i)") auto

definition parseStatusResponse :: "string \<Rightarrow> string list" where
  "parseStatusResponse response =
     (let data = substring response 1 (int (length response) - 1);
          statusCodes = substring data 1 33
      in [CHR 0x0A # ''Status Information:'', ''  Raw Status: '' @ data, CHR 0x0A # ''Nozzle Status:'']
         @ statusLines statusCodes 0)"

definition parseTotalResponse :: "string \<Rightarrow> string list" where
  "parseTotalResponse response =
     (let data = substring response 1 (int (length response) - 3)
      in if length data \<ge> 10
         then [CHR 0x0A # ''Total Reading:'',
               ''  Mode: '' @ [data ! 0],
               ''  Nozzle: '' @ substring data 1 3,
               ''  Value: '' @ substring data 3 11]
         else [])"

subsection \<open>The parsers of the monitor\<close>

text \<open>
  \<^verbatim>\<open>parseSupplyRecord\<close> of monitor-example.js returns an object with thirteen string
  properties, here the list of its properties in the order of the object literal. The
  monitor calls it on responses other than \<^verbatim>\<open>"(0)"\<close> only.
\<close>

definition parseSupplyRecord :: "string \<Rightarrow> (string \<times> string) list" where
  "parseSupplyRecord response =
     (let data = substring response 1 (int (length response) - 3)
      in [(''totalToPay'', substring data 0 6),
          (''volume'', substring data 6 12),
          (''price'', substring data 12 16),
          (''commaCode'', substring data 16 18),
          (''supplyTime'', substring data 18 22),
          (''nozzle'', substring data 22 24),
          (''day'', substring data 24 26),
          (''hour'', substring data 26 28),
          (''minute'', substring data 28 30),
          (''month'', substring data 30 32),
          (''record'', substring data 32 36),
          (''finalTotal'', substring data 36 46),
          (''status'', substring data 46 48)])"

text \<open>
  \<^verbatim>\<open>parseAndDisplayVisualization\<close> of monitor-example.js runs the same loop with the test
  \<^verbatim>\<open>if (i + 8 <= data.length)\<close> around its body. The model returns the pairs of nozzle
  and value that the loop selects; the monitor prints each value through
  \<^verbatim>\<open>formatValue\<close>.
\<close>

function displayedWindows :: "string \<Rightarrow> nat \<Rightarrow> (string \<times> string) list" where
  "displayedWindows data i =
     (if i < length data
      then (if i + 8 \<le> length data
            then [(substring data (int i) (int i + 2), substring data (int i + 2) (int i + 8))]
            else [])
           @ displayedWindows data (i + 8)
      else [])"
  by pat_completeness auto
termination
  by (relation "measure (\<lambda>(data, i). length data - i)") auto

definition parseAndDisplayVisualization :: "string \<Rightarrow> (string \<times> string) list" where
  "parseAndDisplayVisualization response =
     (if response = ''(0)'' then []
      else let data = substring response 1 (int (length response) - 1)
           in displayedWindows data 0)"

subsection \<open>The handlers of the Go server\<close>

text \<open>
  \<^verbatim>\<open>handleSupply\<close> and \<^verbatim>\<open>handleVisualization\<close> of server.go answer with JSON: \<^verbatim>\<open>null\<close> or an
  empty array for \<^verbatim>\<open>"(0)"\<close>, the raw response when it is too short to slice, and the decoded
  fields otherwise. The slice \<^verbatim>\<open>var nozzles []gin.H\<close> of \<^verbatim>\<open>handleVisualization\<close> stays nil when
  the loop appends nothing, and a nil slice is rendered as \<^verbatim>\<open>null\<close>. The model is the decoding of the response \<open>resp\<close> that the handler got
  from the client. A response is the bytes read from the socket, one character per
  byte. A slice \<^verbatim>\<open>data[a:b]\<close> is taken only where the preceding test keeps it in range.
\<close>

datatype json = JNull | JObject "(string \<times> string) list" | JArray "(string \<times> string) list list"

definition goSlice :: "string \<Rightarrow> nat \<Rightarrow> nat \<Rightarrow> string" where
  "goSlice s a b = take (b - a) (drop a s)"

definition handleSupply :: "string \<Rightarrow> json" where
  "handleSupply resp =
     (if resp = ''(0)'' then JNull
      else if length resp < 4 then JObject [(''raw'', resp)]
      else let data = goSlice resp 1 (length resp - 3)
           in JObject
                ((if length data \<ge> 24
                  then [(''totalToPay'', goSlice data 0 6),
                        (''volume'', goSlice data 6 12),
                        (''price'', goSlice data 12 16),
                        (''commaCode'', goSlice data 16 18),
                        (''supplyTime'', goSlice data 18 22),
                        (''nozzle'', goSlice data 22 24)]
                  else [])
                 @ (if length data \<ge> 30
                    then [(''day'', goSlice data 24 26),
                          (''hour'', goSlice data 26 28),
                          (''minute'', goSlice data 28 30)]
                    else [])))"

function visualizationNozzles :: "string \<Rightarrow> nat \<Rightarrow> (string \<times> string) list list" where
  "visualizationNozzles data i =
     (if i + 8 \<le> length data
      then [(''nozzle'', goSlice data i (i + 2)), (''value'', goSlice data (i + 2) (i + 8))]
           # visualizationNozzles data (i + 8)
      else [])"
  by pat_completeness auto
termination
  by (relation "measure (\<lambda>(data, i). length data - i)") auto

definition handleVisualization :: "string \<Rightarrow> json" where
  "handleVisualization resp =
     (if resp = ''(0)'' then JArray []
      else if length resp < 2 then JObject [(''raw'', resp)]
      else let data = goSlice resp 1 (length resp - 1);
               nozzles = visualizationNozzles data 0
           in if nozzles = [] then JNull else JArray nozzles)"

section \<open>Notions of the specification\<close>

text \<open>
  The explicit "no data" results that the parsers define are their two messages for the
  sentinel response.
\<close>

definition noDataReport :: "string list \<Rightarrow> bool" where
  "noDataReport out = (out = [''No supply data available.''] \<or> out = [''No dispensing in progress.''])"

text \<open>The first reply data among the events of the socket, if any.\<close>

fun firstData :: "socket_event list \<Rightarrow> string option" where
  "firstData [] = None"
| "firstData (Data d # later) = Some d"
| "firstData (Close # later) = firstData later"
| "firstData (SocketError msg # later) = firstData later"

fun dialSucceeded :: "dial \<Rightarrow> bool" where
  "dialSucceeded (Dialed h) = True"
| "dialSucceeded (DialError err) = False"

text \<open>
  The recursive equations of the loops are unfolded where a proof asks for them, not by
  the simplifier on its own.
\<close>

declare toString16.simps [simp del] formatX.simps [simp del] sumCodesFrom.simps [simp del]
  visualizationLines.simps [simp del] showNat.simps [simp del] statusLines.simps [simp del]
  displayedWindows.simps [simp del] visualizationNozzles.simps [simp del]

section \<open>Checksum\<close>

lemma and_255: "(n::nat) AND 255 = n mod 256"
proof -
  have "n AND mask 8 = n mod 2 ^ 8"
    by (simp only: take_bit_eq_mask [symmetric] take_bit_eq_mod)
  then show ?thesis by (simp add: mask_eq_exp_minus_1)
qed

lemma sumCodesFrom_eq: "sumCodesFrom codes i s = s + sum_list (drop i codes)"
proof (induction codes i s rule: sumCodesFrom.induct)
  case (1 codes i s)
  show ?case
  proof (cases "i < length codes")
    case True
    then have "drop i codes = codes ! i # drop (Suc i) codes"
      by (simp add: Cons_nth_drop_Suc)
    with True "1" show ?thesis by (simp add: sumCodesFrom.simps [of codes i s])
  next
    case False
    then show ?thesis by (simp add: sumCodesFrom.simps [of codes i s])
  qed
qed

lemma upper_digit_all: "list_all (\<lambda>d. upperChar (digitLower d) = digitUpper d) [0..<16]"
  by code_simp

lemma upper_digit: "d < 16 \<Longrightarrow> upperChar (digitLower d) = digitUpper d"
  using upper_digit_all by (simp add: list_all_iff)

lemma toString16_small:
  "v < 256 \<Longrightarrow> toString16 v = (if v < 16 then [digitLower v] else [digitLower (v div 16), digitLower (v mod 16)])"
  by (simp add: toString16.simps [of v] toString16.simps [of "v div 16"] less_mult_imp_div_less)

lemma formatX_small:
  "v < 256 \<Longrightarrow> formatX v = (if v < 16 then [digitUpper v] else [digitUpper (v div 16), digitUpper (v mod 16)])"
  by (simp add: formatX.simps [of v] formatX.simps [of "v div 16"] less_mult_imp_div_less)

lemma js_render: "v < 256 \<Longrightarrow> padStart (toUpperCase (toString16 v)) 2 ''0'' = twoHexDigits v"
  by (simp add: toString16_small padStart_def toUpperCase_def twoHexDigits_def upper_digit digitUpper_def)

lemma go_render: "v < 256 \<Longrightarrow> sprintf0X 2 v = twoHexDigits v"
  by (simp add: formatX_small sprintf0X_def twoHexDigits_def digitUpper_def)

lemma checksumOfCodes_eq: "checksumOfCodes codes = specChecksum codes"
  by (simp add: checksumOfCodes_def specChecksum_def and_255 sumCodesFrom_eq js_render)

lemma goChecksumOfRunes_eq: "goChecksumOfRunes codes = specChecksum codes"
  by (simp add: goChecksumOfRunes_def specChecksum_def and_255 sumCodesFrom_eq go_render)

lemma digitUpper_hex_all: "list_all (\<lambda>d. digitUpper d \<in> set ''0123456789ABCDEF'') [0..<16]"
  by code_simp

lemma digitUpper_ascii_all: "list_all (\<lambda>d. (of_char (digitUpper d) :: nat) < 128) [0..<16]"
  by code_simp

lemma digitUpper_hex: "d < 16 \<Longrightarrow> digitUpper d \<in> set ''0123456789ABCDEF''"
  using digitUpper_hex_all by (simp only: list_all_iff set_upt atLeastLessThan_iff) simp

lemma digitUpper_ascii: "d < 16 \<Longrightarrow> (of_char (digitUpper d) :: nat) < 128"
  using digitUpper_ascii_all by (simp only: list_all_iff set_upt atLeastLessThan_iff) simp

lemma specChecksum_digits: "set (specChecksum codes) \<subseteq> set ''0123456789ABCDEF''"
proof -
  define v where "v = sum_list (drop 1 codes) mod 256"
  have "v div 16 < 16" by (simp add: v_def less_mult_imp_div_less)
  then have hi: "digitUpper (v div 16) \<in> set ''0123456789ABCDEF''" by (rule digitUpper_hex)
  have "v mod 16 < 16" by simp
  then have lo: "digitUpper (v mod 16) \<in> set ''0123456789ABCDEF''" by (rule digitUpper_hex)
  have "set (specChecksum codes) = {digitUpper (v div 16), digitUpper (v mod 16)}"
    by (simp add: specChecksum_def twoHexDigits_def v_def)
  then show ?thesis using hi lo by (simp only: insert_subset empty_subsetI simp_thms)
qed

text \<open>
  Claim C1. For every string, \<^verbatim>\<open>calculateChecksum\<close> returns the sum of the character codes
  after the first character, reduced to its low 8 bits, as exactly two upper-case
  hexadecimal digits with a leading zero where needed. This holds of the JavaScript
  function and of the Go function, over any sequence of character codes and so over
  every string; the checksum of \<^verbatim>\<open>(&T08L\<close> is \<^verbatim>\<open>2E\<close>.
\<close>

theorem calculateChecksum_spec:
  "checksumOfCodes codes = specChecksum codes
   \<and> calculateChecksum s = specChecksum (charCodes s)
   \<and> goChecksumOfRunes codes = specChecksum codes
   \<and> goCalculateChecksum s = specChecksum (charCodes s)
   \<and> length (calculateChecksum s) = 2
   \<and> set (calculateChecksum s) \<subseteq> set ''0123456789ABCDEF''
   \<and> calculateChecksum ''(&T08L'' = ''2E''"
proof -
  have js: "calculateChecksum s = specChecksum (charCodes s)"
    by (simp only: calculateChecksum_def checksumOfCodes_eq)
  have go: "goCalculateChecksum s = specChecksum (charCodes s)"
    by (simp only: goCalculateChecksum_def goChecksumOfRunes_eq)
  have len: "length (calculateChecksum s) = 2"
    by (simp add: js specChecksum_def twoHexDigits_def)
  have digits: "set (calculateChecksum s) \<subseteq> set ''0123456789ABCDEF''"
    by (simp only: js specChecksum_digits)
  have ex: "calculateChecksum ''(&T08L'' = ''2E''"
    unfolding calculateChecksum_def checksumOfCodes_eq
    by (simp add: specChecksum_def twoHexDigits_def charCodes_def digitUpper_def)
  from checksumOfCodes_eq js goChecksumOfRunes_eq go len digits ex show ?thesis
    by (intro conjI)
qed

section \<open>Transport session: sending and connecting\<close>

lemma ReadString_delim:
  "delim \<in> set (concat chunks) \<Longrightarrow>
   ReadString delim rerr chunks acc = (acc @ takeWhile (\<lambda>c. c \<noteq> delim) (concat chunks) @ [delim], None)"
proof (induction chunks arbitrary: acc)
  case Nil
  then show ?case by simp
next
  case (Cons chunk rest)
  show ?case
  proof (cases "delim \<in> set chunk")
    case True
    then have "takeWhile (\<lambda>c. c \<noteq> delim) (chunk @ concat rest) = takeWhile (\<lambda>c. c \<noteq> delim) chunk"
      by (intro takeWhile_append1 [where x = delim]) auto
    with True show ?thesis by simp
  next
    case False
    then have "takeWhile (\<lambda>c. c \<noteq> delim) (chunk @ concat rest) = chunk @ takeWhile (\<lambda>c. c \<noteq> delim) (concat rest)"
      by (intro takeWhile_append2) auto
    moreover from False Cons.prems have "delim \<in> set (concat rest)" by simp
    ultimately show ?thesis using False Cons.IH by simp
  qed
qed

lemma ReadString_no_delim:
  "delim \<notin> set (concat chunks) \<Longrightarrow> ReadString delim rerr chunks acc = (acc @ concat chunks, Some rerr)"
  by (induction chunks arbitrary: acc) simp_all

lemma awaitResponse_written: "written (snd (awaitResponse c events)) = written c"
  by (induction c events rule: awaitResponse.induct) simp_all

lemma awaitResponse_result:
  "fst (awaitResponse c events)
   = (case firstData events of None \<Rightarrow> Inl (Error ''Response timeout'') | Some d \<Rightarrow> Inr d)"
  by (induction c events rule: awaitResponse.induct) simp_all

lemma sendCommand_first_chunk:
  "connected c \<Longrightarrow> client c = Some k \<Longrightarrow>
   sendCommand c command (Data d # later) = (Inr d, c\<lparr>written := written c @ [command]\<rparr>)"
  by (simp add: sendCommand_def)

lemma sendCommand_no_data:
  "connected c \<Longrightarrow> client c = Some k \<Longrightarrow>
   sendCommand c command [] = (Inl (Error ''Response timeout''), c\<lparr>written := written c @ [command]\<rparr>)"
  by (simp add: sendCommand_def)

lemma sendCommand_peer_closes:
  "connected c \<Longrightarrow> client c = Some k \<Longrightarrow>
   sendCommand c command [Close]
   = (Inl (Error ''Response timeout''), c\<lparr>written := written c @ [command], connected := False\<rparr>)"
  by (simp add: sendCommand_def)

lemma sendCommand_written:
  "connected c \<Longrightarrow> client c = Some k \<Longrightarrow> written (snd (sendCommand c command events)) = written c @ [command]"
  by (simp add: sendCommand_def awaitResponse_written)

lemma sendCommand_result:
  "connected c \<Longrightarrow> client c = Some k \<Longrightarrow>
   fst (sendCommand c command events)
   = (case firstData events of None \<Rightarrow> Inl (Error ''Response timeout'') | Some d \<Rightarrow> Inr d)"
  by (simp add: sendCommand_def awaitResponse_result)

lemma SendCommand_after_write:
  assumes "\<not> mu g" "connectedGo g" "conn g = Some h"
    and rd: "ReadString CHR '')'' rerr chunks [] = (response, err)"
  shows "SendCommand g command None chunks rerr =
         (if err \<noteq> None \<and> response = [] then Blocked (g\<lparr>mu := True, sent := sent g @ [command]\<rparr>)
          else Returned (response, None) (g\<lparr>sent := sent g @ [command]\<rparr>))"
proof -
  have "g\<lparr>mu := True, sent := sent g @ [command], mu := False\<rparr> = g\<lparr>sent := sent g @ [command]\<rparr>"
    using assms(1) by (cases g) simp
  then show ?thesis
    using assms(1-3) by (cases err) (simp_all add: SendCommand_def Let_def rd Disconnect_def)
qed

lemma SendCommand_complete_reply:
  assumes "\<not> mu g" "connectedGo g" "conn g = Some h" "CHR '')'' \<in> set (concat chunks)"
  shows "SendCommand g command None chunks rerr =
         Returned (takeWhile (\<lambda>c. c \<noteq> CHR '')'') (concat chunks) @ '')'', None) (g\<lparr>sent := sent g @ [command]\<rparr>)"
  using SendCommand_after_write [OF assms(1-3) ReadString_delim [OF assms(4), of rerr "[]"], of command]
  by simp

lemma SendCommand_partial_reply:
  assumes "\<not> mu g" "connectedGo g" "conn g = Some h"
    "CHR '')'' \<notin> set (concat chunks)" "concat chunks \<noteq> []"
  shows "SendCommand g command None chunks rerr =
         Returned (concat chunks, None) (g\<lparr>sent := sent g @ [command]\<rparr>)"
  using SendCommand_after_write [OF assms(1-3) ReadString_no_delim [OF assms(4), of rerr "[]"], of command] assms(5)
  by (simp del: concat_eq_Nil_conv)

lemma SendCommand_no_reply_blocks:
  assumes "\<not> mu g" "connectedGo g" "conn g = Some h" "concat chunks = []"
  shows "SendCommand g command None chunks rerr = Blocked (g\<lparr>mu := True, sent := sent g @ [command]\<rparr>)"
proof -
  have "CHR '')'' \<notin> set (concat chunks)" by (simp only: assms(4)) simp
  from SendCommand_after_write [OF assms(1-3) ReadString_no_delim [OF this, of rerr "[]"], of command] assms(4)
  show ?thesis by (simp del: concat_eq_Nil_conv)
qed

lemma SendCommand_write_error_blocks:
  assumes "\<not> mu g" "connectedGo g" "conn g = Some h"
  shows "SendCommand g command (Some err) chunks rerr = Blocked (g\<lparr>mu := True\<rparr>)"
  using assms by (simp add: SendCommand_def Let_def Disconnect_def)

lemma SendCommand_sent:
  assumes "\<not> mu g" "connectedGo g" "conn g = Some h"
  shows "sent (clientAfter (SendCommand g command None chunks rerr)) = sent g @ [command]"
proof (cases "CHR '')'' \<in> set (concat chunks)")
  case True
  with assms show ?thesis by (simp add: SendCommand_complete_reply)
next
  case False
  show ?thesis
  proof (cases "concat chunks = []")
    case True
    with assms show ?thesis by (simp add: SendCommand_no_reply_blocks)
  next
    case nonempty: False
    with assms False show ?thesis by (simp add: SendCommand_partial_reply)
  qed
qed

text \<open>
  Claim C2. The claim: the send operation reads until the closing parenthesis, so that
  for every reply and every split of it into chunks the caller gets the complete reply
  up to and including the first closing parenthesis. The Go \<^verbatim>\<open>SendCommand\<close> does so
  (\<open>SendCommand_complete_reply\<close>). The JavaScript \<^verbatim>\<open>sendCommand\<close> resolves with the first
  \<^verbatim>\<open>data\<close> event whatever it holds (\<open>sendCommand_first_chunk\<close>): when the reply
  \<^verbatim>\<open>(0801000012500020)\<close> to \<^verbatim>\<open>(&V)\<close> arrives as the two data events \<^verbatim>\<open>(08010000\<close> and
  \<^verbatim>\<open>12500020)\<close>, the caller receives \<^verbatim>\<open>(08010000\<close> as the response.
\<close>

theorem sendCommand_split_reply:
  "sendCommand \<lparr>client = Some 0, connected = True, sockets = 1, written = []\<rparr> ''(&V)''
     [Data ''(08010000'', Data ''12500020)'']
   = (Inr ''(08010000'', \<lparr>client = Some 0, connected = True, sockets = 1, written = [''(&V)'']\<rparr>)"
  by (simp add: sendCommand_def)

text \<open>
  Claim C3. The claim: when no closing parenthesis arrives within the deadline, the send
  fails with a timeout error and leaves the session disconnected, the socket closed.
  The Go \<^verbatim>\<open>SendCommand\<close> attempts exactly that: on a read error with no data it calls
  \<^verbatim>\<open>c.Disconnect()\<close> and then returns the error. But it still holds \<^verbatim>\<open>c.mu\<close>, which
  \<^verbatim>\<open>Disconnect\<close> locks first: at a connected client whose device stays silent until the
  deadline the call blocks for ever, returns no error, and the session is still
  connected, its connection open and its mutex held. (For any session and any command
  this is \<open>SendCommand_no_reply_blocks\<close>. The other paths: with some data but no closing
  parenthesis the Go client returns the data as a success, \<open>SendCommand_partial_reply\<close>;
  the JavaScript client fails with "Response timeout" and has no disconnect of its
  own, so that the session is disconnected only if the socket closed meanwhile,
  \<open>sendCommand_no_data\<close> and \<open>sendCommand_peer_closes\<close>.)
\<close>

theorem SendCommand_silent_device_blocks:
  "SendCommand \<lparr>conn = Some 7, connectedGo = True, mu = False, sent = []\<rparr> ''(&S)'' None [] ''i/o timeout''
   = Blocked \<lparr>conn = Some 7, connectedGo = True, mu = True, sent = [''(&S)'']\<rparr>"
  by (simp add: SendCommand_def Disconnect_def)

text \<open>
  Claim C3, what is left of the session at that input: it is still connected, its
  connection is open and its mutex is held.
\<close>

theorem SendCommand_silent_device_blocks_witness:
  "connectedGo (clientAfter (SendCommand \<lparr>conn = Some 7, connectedGo = True, mu = False, sent = []\<rparr>
      ''(&S)'' None [] ''i/o timeout''))
   \<and> conn (clientAfter (SendCommand \<lparr>conn = Some 7, connectedGo = True, mu = False, sent = []\<rparr>
      ''(&S)'' None [] ''i/o timeout'')) = Some 7
   \<and> mu (clientAfter (SendCommand \<lparr>conn = Some 7, connectedGo = True, mu = False, sent = []\<rparr>
      ''(&S)'' None [] ''i/o timeout''))"
  using SendCommand_silent_device_blocks by simp

lemma Connect_idempotent:
  "(\<not> mu g \<and> connectedGo g \<and> conn g \<noteq> None \<longrightarrow> Connect g d = Returned None g)
   \<and> (\<not> mu g \<and> \<not> connectedGo g \<longrightarrow>
        connectedGo (clientAfter (Connect g d)) = dialSucceeded d)
   \<and> connected (snd (connect c d)) = dialSucceeded d
   \<and> client (snd (connect c d)) = Some (sockets c)"
proof -
  have "\<not> mu g \<Longrightarrow> g\<lparr>mu := True, mu := False\<rparr> = g" by (cases g) simp
  then show ?thesis
    by (cases d) (auto simp add: Connect_def connect_def)
qed

text \<open>
  Claim C4. The claim: connect on a session that is connected is a no-op that returns
  success at once, and a session becomes connected only when connect succeeds. The Go
  \<^verbatim>\<open>Connect\<close> starts with the test \<^verbatim>\<open>if c.connected && c.conn != nil { return nil }\<close> and is
  idempotent, and in both clients a session is connected after a connect exactly when
  the dial succeeded (\<open>Connect_idempotent\<close>). The JavaScript \<^verbatim>\<open>connect\<close> has no such test:
  on a connected client it replaces the socket by a new one, leaving the old one open
  with its handlers, and dials again; when that dial is refused the call fails and
  the session that was connected is disconnected.
\<close>

theorem connect_redials_when_connected:
  "connect \<lparr>client = Some 0, connected = True, sockets = 1, written = []\<rparr> (DialError ''ECONNREFUSED'')
   = (Inl (Error ''ECONNREFUSED''), \<lparr>client = Some 1, connected = False, sockets = 2, written = []\<rparr>)"
  by (simp add: connect_def)

lemma connect_replaces_socket:
  "connect \<lparr>client = Some 0, connected = True, sockets = 1, written = []\<rparr> (Dialed 5)
   = (Inr (), \<lparr>client = Some 1, connected = True, sockets = 2, written = []\<rparr>)"
  by (simp add: connect_def)

lemma checksummed_frames:
  "buildCommand ''&I'' [] = ''(&I6F)'' \<and> buildCommand ''&V'' [] = ''(&V7C)''
   \<and> buildCommand ''&S'' [] = ''(&S79)'' \<and> buildCommand ''&R'' [] = ''(&R78)''"
  by code_simp

text \<open>
  Claim C8. The increment, visualization, status and calendar operations send exactly
  the literal frames \<^verbatim>\<open>(&I)\<close>, \<^verbatim>\<open>(&V)\<close>, \<^verbatim>\<open>(&S)\<close> and \<^verbatim>\<open>(&R)\<close>: on a connected session,
  the string written by each of them is the literal, with no checksum field (what
  \<^verbatim>\<open>buildCommand\<close> would produce instead is \<open>checksummed_frames\<close>). This holds of the
  JavaScript client and of the Go client, whatever reply arrives.
\<close>

theorem literal_frames:
  "(connected c \<and> client c = Some k \<longrightarrow>
      written (snd (increment c events)) = written c @ [''(&I)'']
    \<and> written (snd (getVisualization c events)) = written c @ [''(&V)'']
    \<and> written (snd (getStatus c events)) = written c @ [''(&S)'']
    \<and> written (snd (readCalendar c events)) = written c @ [''(&R)''])
   \<and> (\<not> mu g \<and> connectedGo g \<and> conn g = Some h \<longrightarrow>
      sent (clientAfter (Increment g None chunks rerr)) = sent g @ [''(&I)'']
    \<and> sent (clientAfter (GetVisualization g None chunks rerr)) = sent g @ [''(&V)'']
    \<and> sent (clientAfter (GetStatus g None chunks rerr)) = sent g @ [''(&S)'']
    \<and> sent (clientAfter (ReadCalendar g None chunks rerr)) = sent g @ [''(&R)''])"
  by (simp add: increment_def getVisualization_def getStatus_def readCalendar_def sendCommand_written
      Increment_def GetVisualization_def GetStatus_def ReadCalendar_def SendCommand_sent)

text \<open>Claim C8 at connected clients that receive the reply \<^verbatim>\<open>(0)\<close>.\<close>

theorem literal_frames_witness:
  "written (snd (increment \<lparr>client = Some 0, connected = True, sockets = 1, written = []\<rparr> [Data ''(0)''])) = [''(&I)'']
   \<and> written (snd (getVisualization \<lparr>client = Some 0, connected = True, sockets = 1, written = []\<rparr> [Data ''(0)''])) = [''(&V)'']
   \<and> written (snd (getStatus \<lparr>client = Some 0, connected = True, sockets = 1, written = []\<rparr> [Data ''(0)''])) = [''(&S)'']
   \<and> written (snd (readCalendar \<lparr>client = Some 0, connected = True, sockets = 1, written = []\<rparr> [Data ''(0)''])) = [''(&R)'']
   \<and> sent (clientAfter (Increment \<lparr>conn = Some 7, connectedGo = True, mu = False, sent = []\<rparr> None [''(0)''] ''i/o timeout'')) = [''(&I)'']
   \<and> sent (clientAfter (GetVisualization \<lparr>conn = Some 7, connectedGo = True, mu = False, sent = []\<rparr> None [''(0)''] ''i/o timeout'')) = [''(&V)'']
   \<and> sent (clientAfter (GetStatus \<lparr>conn = Some 7, connectedGo = True, mu = False, sent = []\<rparr> None [''(0)''] ''i/o timeout'')) = [''(&S)'']
   \<and> sent (clientAfter (ReadCalendar \<lparr>conn = Some 7, connectedGo = True, mu = False, sent = []\<rparr> None [''(0)''] ''i/o timeout'')) = [''(&R)'']"
  using literal_frames [of "\<lparr>client = Some 0, connected = True, sockets = 1, written = []\<rparr>" 0 "[Data ''(0)'']"
      "\<lparr>conn = Some 7, connectedGo = True, mu = False, sent = []\<rparr>" 7 "[''(0)'']" "''i/o timeout''"]
  by simp

section \<open>Response interpreters\<close>

lemma substring_nat: "a \<le> b \<Longrightarrow> substring s (int a) (int b) = take (b - a) (drop a s)"
proof -
  assume ab: "a \<le> b"
  have ca: "clampIndex s (int a) = min a (length s)" by (simp add: clampIndex_def min_def)
  have cb: "clampIndex s (int b) = min b (length s)" by (simp add: clampIndex_def min_def)
  show ?thesis
  proof (cases "a \<le> length s")
    case True
    with ab show ?thesis
      by (simp add: substring_def Let_def ca cb min_def max_def)
  next
    case False
    with ab show ?thesis
      by (simp add: substring_def Let_def ca cb min_def max_def)
  qed
qed

lemma strip_frame:
  "substring (c # body @ [x, y, z]) 1 (int (length (c # body @ [x, y, z])) - 3) = body"
proof -
  have "int (length (c # body @ [x, y, z])) - 3 = int (length body + 1)" by simp
  then have "substring (c # body @ [x, y, z]) 1 (int (length (c # body @ [x, y, z])) - 3)
           = substring (c # body @ [x, y, z]) (int 1) (int (length body + 1))"
    by simp
  also have "\<dots> = take (length body + 1 - 1) (drop 1 (c # body @ [x, y, z]))"
    by (rule substring_nat) simp
  finally show ?thesis by simp
qed

lemma parseSupplyResponse_full:
  assumes "52 \<le> length body"
  shows "parseSupplyResponse (CHR ''('' # body @ [x, y, z]) =
    [CHR 0x0A # ''Supply Data:'',
     ''  Total to Pay: '' @ take 6 body,
     ''  Volume: '' @ take 6 (drop 6 body),
     ''  Price: '' @ take 4 (drop 12 body),
     ''  Comma Code: '' @ take 2 (drop 16 body),
     ''  Supply Time: '' @ take 4 (drop 18 body),
     ''  Nozzle Code: '' @ take 2 (drop 22 body),
     ''  Day: '' @ take 2 (drop 24 body),
     ''  Hour: '' @ take 2 (drop 26 body),
     ''  Minute: '' @ take 2 (drop 28 body),
     ''  Month: '' @ take 2 (drop 30 body),
     ''  Record: '' @ take 4 (drop 32 body),
     ''  Final Total: '' @ take 10 (drop 36 body),
     ''  Status: '' @ take 2 (drop 46 body)]"
proof -
  have ne: "CHR ''('' # body @ [x, y, z] \<noteq> ''(0)''"
    using assms by (auto dest: arg_cong [where f = length])
  have sub: "\<And>a b. a \<le> b \<Longrightarrow> substring body (int a) (int b) = take (b - a) (drop a body)"
    by (rule substring_nat)
  show ?thesis
    unfolding parseSupplyResponse_def strip_frame Let_def
    using assms ne sub [of 0 6] sub [of 6 12] sub [of 12 16] sub [of 16 18] sub [of 18 22] sub [of 22 24]
      sub [of 24 26] sub [of 26 28] sub [of 28 30] sub [of 30 32] sub [of 32 36] sub [of 36 46] sub [of 46 48]
    by simp
qed

lemma window_steps: "i < n \<Longrightarrow> (n - i + 7) div 8 = Suc ((n - (i + 8) + 7) div 8)" for i n :: nat
proof (cases "i + 8 \<le> n")
  case True
  then have "n - i + 7 = (n - (i + 8) + 7) + 8" by linarith
  then show ?thesis by (simp only: div_add_self2)
next
  case False
  assume "i < n"
  with False have "8 * 1 \<le> n - i + 7" "n - i + 7 < 8 * Suc 1" by simp_all
  then have "(n - i + 7) div 8 = 1" by (rule div_nat_eqI)
  moreover from False have "n - (i + 8) = 0" by simp
  ultimately show ?thesis by simp
qed

lemma whole_steps: "i + 8 \<le> n \<Longrightarrow> (n - i) div 8 = Suc ((n - (i + 8)) div 8)" for i n :: nat
proof -
  assume "i + 8 \<le> n"
  then have "n - i = (n - (i + 8)) + 8" by linarith
  then show ?thesis by (simp only: div_add_self2)
qed

lemma visualizationLines_count: "length (visualizationLines data i) = (length data - i + 7) div 8"
proof (induction data i rule: visualizationLines.induct)
  case (1 data i)
  show ?case
  proof (cases "i < length data")
    case True
    have ih: "length (visualizationLines data (i + 8)) = (length data - (i + 8) + 7) div 8"
      by (rule "1.IH" [OF True refl refl])
    have "length (visualizationLines data i) = Suc (length (visualizationLines data (i + 8)))"
      using True by (subst visualizationLines.simps) (simp add: Let_def)
    also have "\<dots> = Suc ((length data - (i + 8) + 7) div 8)" by (simp only: ih)
    also have "\<dots> = (length data - i + 7) div 8" by (simp only: window_steps [OF True])
    finally show ?thesis .
  next
    case False
    then have "visualizationLines data i = []"
      by (subst visualizationLines.simps) simp
    with False show ?thesis by simp
  qed
qed

lemma displayedWindows_count: "length (displayedWindows data i) = (length data - i) div 8"
proof (induction data i rule: displayedWindows.induct)
  case (1 data i)
  show ?case
  proof (cases "i < length data")
    case True
    have ih: "length (displayedWindows data (i + 8)) = (length data - (i + 8)) div 8"
      by (rule "1.IH" [OF True])
    show ?thesis
    proof (cases "i + 8 \<le> length data")
      case whole: True
      have "length (displayedWindows data i) = Suc (length (displayedWindows data (i + 8)))"
        using True whole by (subst displayedWindows.simps) simp
      also have "\<dots> = Suc ((length data - (i + 8)) div 8)" by (simp only: ih)
      also have "\<dots> = (length data - i) div 8" by (simp only: whole_steps [OF whole])
      finally show ?thesis .
    next
      case part: False
      have "length (displayedWindows data i) = length (displayedWindows data (i + 8))"
        using True part by (subst displayedWindows.simps) simp
      also have "\<dots> = (length data - (i + 8)) div 8" by (simp only: ih)
      also from part have "\<dots> = 0" by simp
      also from part have "0 = (length data - i) div 8" by simp
      finally show ?thesis .
    qed
  next
    case False
    then have "displayedWindows data i = []"
      by (subst displayedWindows.simps) simp
    with False show ?thesis by simp
  qed
qed

lemma visualizationNozzles_count: "length (visualizationNozzles data i) = (length data - i) div 8"
proof (induction data i rule: visualizationNozzles.induct)
  case (1 data i)
  show ?case
  proof (cases "i + 8 \<le> length data")
    case True
    have ih: "length (visualizationNozzles data (i + 8)) = (length data - (i + 8)) div 8"
      by (rule "1.IH" [OF True])
    have "length (visualizationNozzles data i) = Suc (length (visualizationNozzles data (i + 8)))"
      using True by (subst visualizationNozzles.simps) simp
    also have "\<dots> = Suc ((length data - (i + 8)) div 8)" by (simp only: ih)
    also have "\<dots> = (length data - i) div 8" by (simp only: whole_steps [OF True])
    finally show ?thesis .
  next
    case False
    then have "visualizationNozzles data i = []"
      by (subst visualizationNozzles.simps) simp
    moreover from False have "(length data - i) div 8 = 0" by simp
    ultimately show ?thesis by simp
  qed
qed

lemma visualization_example:
  "parseVisualizationResponse ''(0801000012500020)''
     = [CHR 0x0A # ''Ongoing Dispensing:'', ''  Nozzle 08: 010000'', ''  Nozzle 12: 500020'']
   \<and> parseAndDisplayVisualization ''(0801000012500020)'' = [(''08'', ''010000''), (''12'', ''500020'')]
   \<and> handleVisualization ''(0801000012500020)''
     = JArray [[(''nozzle'', ''08''), (''value'', ''010000'')], [(''nozzle'', ''12''), (''value'', ''500020'')]]"
  by code_simp

text \<open>
  Claim C5, as stated: every interpreter answers the sentinel \<^verbatim>\<open>(0)\<close> with its explicit
  "no data" result. \<^verbatim>\<open>parseStatusResponse\<close> and \<^verbatim>\<open>parseTotalResponse\<close> have no branch for the
  sentinel, and what they print for it is not a "no data" message.
\<close>

theorem status_and_total_have_no_sentinel:
  "\<not> noDataReport (parseStatusResponse ''(0)'') \<and> \<not> noDataReport (parseTotalResponse ''(0)'')"
  by code_simp

text \<open>
  Claim C5, amended. On \<^verbatim>\<open>(0)\<close> the supply, supply-identified and visualization
  interpreters return their explicit "no data" message. The status and total
  interpreters raise no error either, but have no sentinel branch: the status
  interpreter prints its headings with the raw status \<^verbatim>\<open>0\<close> and no nozzle line, and the
  total interpreter prints nothing.
\<close>

theorem sentinel_reports:
  "parseSupplyResponse ''(0)'' = [''No supply data available.'']
   \<and> parseSupplyIdentifiedResponse ''(0)'' = [''No supply data available.'']
   \<and> parseVisualizationResponse ''(0)'' = [''No dispensing in progress.'']
   \<and> parseStatusResponse ''(0)'' = [CHR 0x0A # ''Status Information:'', ''  Raw Status: 0'', CHR 0x0A # ''Nozzle Status:'']
   \<and> parseTotalResponse ''(0)'' = []"
  by code_simp

text \<open>
  Claim C6. The claim: supply decoding fills all thirteen fields for a body of at least
  52 characters (\<open>parseSupplyResponse_full\<close>) and exactly the first nine for a body of 30
  characters. \<^verbatim>\<open>parseSupplyResponse\<close> prints the first nine fields only when the body has at
  least 34 characters: for the response \<^verbatim>\<open>(0015000005003000200060081514307F)\<close>, whose body
  after stripping has 30 characters, it prints nothing. The monitor and the Go server
  decode the nine fields from the same response (\<open>siblings_thirty\<close>). The two bounds 34
  and 52 are the lengths of the whole responses: for a response of 52 characters the
  body has 48, and the four further fields are not printed
  (\<open>parseSupplyResponse_documented_length\<close>).
\<close>

theorem parseSupplyResponse_thirty:
  "length (substring ''(0015000005003000200060081514307F)'' 1 (int (length ''(0015000005003000200060081514307F)'') - 3)) = 30
   \<and> parseSupplyResponse ''(0015000005003000200060081514307F)'' = []"
  by code_simp

lemma siblings_thirty:
  "parseSupplyRecord ''(0015000005003000200060081514307F)''
     = [(''totalToPay'', ''001500''), (''volume'', ''000500''), (''price'', ''3000''), (''commaCode'', ''20''),
        (''supplyTime'', ''0060''), (''nozzle'', ''08''), (''day'', ''15''), (''hour'', ''14''), (''minute'', ''30''),
        (''month'', ''''), (''record'', ''''), (''finalTotal'', ''''), (''status'', '''')]
   \<and> handleSupply ''(0015000005003000200060081514307F)''
     = JObject [(''totalToPay'', ''001500''), (''volume'', ''000500''), (''price'', ''3000''), (''commaCode'', ''20''),
        (''supplyTime'', ''0060''), (''nozzle'', ''08''), (''day'', ''15''), (''hour'', ''14''), (''minute'', ''30'')]"
  by code_simp

lemma parseSupplyResponse_documented_length:
  "length ''(0015000005003000200060081514300601230000123456007F)'' = 52
   \<and> parseSupplyResponse ''(0015000005003000200060081514300601230000123456007F)''
     = [CHR 0x0A # ''Supply Data:'', ''  Total to Pay: 001500'', ''  Volume: 000500'', ''  Price: 3000'',
        ''  Comma Code: 20'', ''  Supply Time: 0060'', ''  Nozzle Code: 08'', ''  Day: 15'', ''  Hour: 14'',
        ''  Minute: 30'']"
  by code_simp

text \<open>
  Claim C7. The claim: visualization decoding walks the body in windows of 8 characters
  and discards a trailing window of fewer than 8. The example of the claim holds
  (\<open>visualization_example\<close>), and the monitor and the Go server discard a partial window
  (\<open>displayedWindows_count\<close>, \<open>visualizationNozzles_count\<close>). \<^verbatim>\<open>parseVisualizationResponse\<close>
  prints a line for every started window (\<open>visualizationLines_count\<close>): for the response
  \<^verbatim>\<open>(0801000012)\<close> it prints a second entry, nozzle \<^verbatim>\<open>12\<close> with an empty value.
\<close>

theorem parseVisualizationResponse_partial_window:
  "parseVisualizationResponse ''(0801000012)''
     = [CHR 0x0A # ''Ongoing Dispensing:'', ''  Nozzle 08: 010000'', ''  Nozzle 12: '']"
  by code_simp

lemma siblings_partial_window:
  "parseAndDisplayVisualization ''(0801000012)'' = [(''08'', ''010000'')]
   \<and> handleVisualization ''(0801000012)'' = JArray [[(''nozzle'', ''08''), (''value'', ''010000'')]]"
  by code_simp

lemma handleVisualization_no_window:
  "handleVisualization ''(0801)'' = JNull \<and> parseAndDisplayVisualization ''(0801)'' = []"
  by code_simp

section \<open>Parameters of the operations\<close>

lemma concat_replicate_single: "concat (replicate n [c]) = replicate n c"
  by (induction n) simp_all

lemma padStart_zero: "padStart s n ''0'' = replicate (n - length s) CHR ''0'' @ s"
  by (simp add: padStart_def Let_def concat_replicate_single)

lemma buildCommand_eq: "buildCommand header parameters = ''('' @ header @ parameters @ specChecksum (charCodes (''('' @ header @ parameters)) @ '')''"
  by (simp add: buildCommand_def Let_def calculateChecksum_def checksumOfCodes_eq)

lemma BuildCommand_eq: "BuildCommand header parameters = buildCommand header parameters"
  by (simp add: buildCommand_def BuildCommand_def calculateChecksum_def goCalculateChecksum_def
      checksumOfCodes_eq goChecksumOfRunes_eq)

lemma utf8Len_ascii: "isAscii s \<Longrightarrow> utf8Len s = length s"
  by (induction s) (simp_all add: isAscii_def utf8Len_def)

lemma utf8Bytes_ascii: "isAscii s \<Longrightarrow> utf8Bytes s = asciiBytes s"
  by (induction s) (simp_all add: isAscii_def utf8Bytes_def asciiBytes_def Let_def)

lemma isAscii_append: "isAscii (xs @ ys) = (isAscii xs \<and> isAscii ys)"
  by (simp add: isAscii_def)

lemma isAscii_Nil: "isAscii []"
  by (simp add: isAscii_def)

lemma isAscii_Cons: "isAscii (c # s) = ((of_char c :: nat) < 128 \<and> isAscii s)"
  by (simp add: isAscii_def)

lemma isAscii_zeros: "isAscii (replicate n CHR ''0'')"
  by (induction n) (simp_all add: isAscii_def)

lemma isAscii_specChecksum: "isAscii (specChecksum codes)"
proof -
  have "sum_list (drop 1 codes) mod 256 div 16 < 16" by (simp add: less_mult_imp_div_less)
  then have "(of_char (digitUpper (sum_list (drop 1 codes) mod 256 div 16)) :: nat) < 128"
    by (rule digitUpper_ascii)
  moreover have "(of_char (digitUpper (sum_list (drop 1 codes) mod 256 mod 16)) :: nat) < 128"
    by (rule digitUpper_ascii) simp
  ultimately show ?thesis
    by (simp add: isAscii_def specChecksum_def twoHexDigits_def)
qed

lemma isAscii_buildCommand: "isAscii header \<Longrightarrow> isAscii parameters \<Longrightarrow> isAscii (buildCommand header parameters)"
  by (simp add: buildCommand_eq isAscii_append isAscii_Cons isAscii_Nil isAscii_specChecksum)

text \<open>
  Claim C9, as stated: malformed parameters fail with an invalid-parameter error before
  any I/O. \<^verbatim>\<open>changePrice\<close> with a nozzle of one character and the price \<^verbatim>\<open>12x456\<close> builds
  a frame, writes it and returns the reply of the device.
\<close>

theorem changePrice_sends_malformed:
  "changePrice \<lparr>client = Some 0, connected = True, sockets = 1, written = []\<rparr> ''8'' ''0'' ''12x456'' [Data ''(U)'']
   = (Inr ''(U)'', \<lparr>client = Some 0, connected = True, sockets = 1, written = [''(&U80012x4568D)'']\<rparr>)"
  by code_simp

text \<open>
  Claim C9, amended. \<^verbatim>\<open>changePrice\<close> and \<^verbatim>\<open>setPreset\<close> check nothing: on a connected session
  every nozzle, level, price and value is framed and written, and the call returns the
  first reply data or the timeout error. A value shorter than its field is padded on
  the left with zeros; a longer one is sent whole, never truncated or wrapped.
\<close>

theorem parameters_pass_through:
  "(connected c \<and> client c = Some k \<longrightarrow>
      written (snd (changePrice c nozzle level price events)) = written c @ [changePriceCommand nozzle level price]
    \<and> fst (changePrice c nozzle level price events)
        = (case firstData events of None \<Rightarrow> Inl (Error ''Response timeout'') | Some d \<Rightarrow> Inr d)
    \<and> written (snd (setPreset c nozzle val events)) = written c @ [setPresetCommand nozzle val]
    \<and> fst (setPreset c nozzle val events)
        = (case firstData events of None \<Rightarrow> Inl (Error ''Response timeout'') | Some d \<Rightarrow> Inr d))
   \<and> changePriceCommand nozzle level price
       = buildCommand ''&U'' (nozzle @ level @ ''0'' @ replicate (4 - length price) CHR ''0'' @ price)
   \<and> setPresetCommand nozzle val = buildCommand ''&P'' (nozzle @ replicate (6 - length val) CHR ''0'' @ val)"
  by (simp add: changePrice_def setPreset_def sendCommand_written sendCommand_result
      changePriceCommand_def setPresetCommand_def Let_def padStart_zero)

text \<open>Claim C9, the amended statement at a connected client, a price of five digits and a value of four.\<close>

theorem parameters_pass_through_witness:
  "written (snd (changePrice \<lparr>client = Some 0, connected = True, sockets = 1, written = []\<rparr> ''08'' ''0'' ''12345'' [Data ''(U)'']))
     = [changePriceCommand ''08'' ''0'' ''12345'']
   \<and> fst (changePrice \<lparr>client = Some 0, connected = True, sockets = 1, written = []\<rparr> ''08'' ''0'' ''12345'' [Data ''(U)'']) = Inr ''(U)''
   \<and> changePriceCommand ''08'' ''0'' ''12345'' = buildCommand ''&U'' ''080012345''
   \<and> setPresetCommand ''08'' ''1000'' = buildCommand ''&P'' ''08001000''"
  using parameters_pass_through [of "\<lparr>client = Some 0, connected = True, sockets = 1, written = []\<rparr>" 0
      "''08''" "''0''" "''12345''" "[Data ''(U)'']" "''1000''"]
  by (simp add: eval_nat_numeral)

text \<open>
  Claim C10, as stated: for every triple the two implementations build the same frame.
  For the price of the two characters with code 233, JavaScript counts two code units
  and pads to four, while Go counts four bytes and does not pad.
\<close>

theorem changePrice_frames_differ:
  "changePriceCommand ''08'' ''0'' [CHR 0xE9, CHR 0xE9] \<noteq> ChangePriceCommand ''08'' ''0'' [CHR 0xE9, CHR 0xE9]"
  by code_simp

text \<open>
  Claim C10, amended. For every triple of ASCII strings, \<^verbatim>\<open>changePrice\<close> and
  \<^verbatim>\<open>ChangePrice\<close> build the same frame, byte for byte on the wire; the price is padded on
  the left with zeros to width 4 in both, and in particular a price of fewer than 4
  characters. The frames are the same strings as soon as the price is ASCII; the bytes
  written are the same when the nozzle and the level are ASCII too.
\<close>

theorem changePrice_frames_agree:
  "(isAscii price \<longrightarrow>
      changePriceCommand nozzle level price = ChangePriceCommand nozzle level price
    \<and> changePriceCommand nozzle level price
        = buildCommand ''&U'' (nozzle @ level @ ''0'' @ replicate (4 - length price) CHR ''0'' @ price))
   \<and> (isAscii nozzle \<and> isAscii level \<and> isAscii price \<longrightarrow>
      asciiBytes (changePriceCommand nozzle level price) = utf8Bytes (ChangePriceCommand nozzle level price))"
proof (intro conjI impI)
  have js: "changePriceCommand nozzle level price
       = buildCommand ''&U'' (nozzle @ level @ ''0'' @ replicate (4 - length price) CHR ''0'' @ price)"
    by (simp add: changePriceCommand_def Let_def padStart_zero)
  have go: "ChangePriceCommand nozzle level price
       = buildCommand ''&U'' (nozzle @ level @ ''0'' @ replicate (4 - length price) CHR ''0'' @ price)"
    if "isAscii price"
    using that by (simp add: ChangePriceCommand_def Let_def BuildCommand_eq utf8Len_ascii sprintf0s_def)
  show "changePriceCommand nozzle level price
       = buildCommand ''&U'' (nozzle @ level @ ''0'' @ replicate (4 - length price) CHR ''0'' @ price)"
    by (rule js)
  show "changePriceCommand nozzle level price = ChangePriceCommand nozzle level price" if "isAscii price"
    using js go [OF that] by simp
  show "asciiBytes (changePriceCommand nozzle level price) = utf8Bytes (ChangePriceCommand nozzle level price)"
    if asc: "isAscii nozzle \<and> isAscii level \<and> isAscii price"
  proof -
    have "isAscii (nozzle @ level @ ''0'' @ replicate (4 - length price) CHR ''0'' @ price)"
      using asc by (simp add: isAscii_append isAscii_zeros isAscii_Cons isAscii_Nil)
    moreover have "isAscii ''&U''" by (simp add: isAscii_Cons isAscii_Nil)
    ultimately have "isAscii (ChangePriceCommand nozzle level price)"
      using asc by (simp only: go) (intro isAscii_buildCommand)
    then have "utf8Bytes (ChangePriceCommand nozzle level price) = asciiBytes (ChangePriceCommand nozzle level price)"
      by (rule utf8Bytes_ascii)
    with js go asc show ?thesis by simp
  qed
qed

text \<open>Claim C10, the amended statement at nozzle \<^verbatim>\<open>08\<close>, level \<^verbatim>\<open>0\<close> and price \<^verbatim>\<open>12\<close>.\<close>

theorem changePrice_frames_agree_witness:
  "isAscii ''08'' \<and> isAscii ''0'' \<and> isAscii ''12''
   \<and> changePriceCommand ''08'' ''0'' ''12'' = ChangePriceCommand ''08'' ''0'' ''12''
   \<and> asciiBytes (changePriceCommand ''08'' ''0'' ''12'') = utf8Bytes (ChangePriceCommand ''08'' ''0'' ''12'')
   \<and> changePriceCommand ''08'' ''0'' ''12'' = buildCommand ''&U'' ''08000012''"
proof -
  have asc: "isAscii ''08'' \<and> isAscii ''0'' \<and> isAscii ''12''" by (simp add: isAscii_def)
  with changePrice_frames_agree [of "''12''" "''08''" "''0''"]
  have same: "changePriceCommand ''08'' ''0'' ''12'' = ChangePriceCommand ''08'' ''0'' ''12''"
    and bytes: "asciiBytes (changePriceCommand ''08'' ''0'' ''12'') = utf8Bytes (ChangePriceCommand ''08'' ''0'' ''12'')"
    and padded: "changePriceCommand ''08'' ''0'' ''12''
       = buildCommand ''&U'' (''08'' @ ''0'' @ ''0'' @ replicate (4 - length ''12'') CHR ''0'' @ ''12'')"
    by blast+
  have "''08'' @ ''0'' @ ''0'' @ replicate (4 - length ''12'') CHR ''0'' @ ''12'' = ''08000012''"
    by (simp add: eval_nat_numeral)
  with padded have "changePriceCommand ''08'' ''0'' ''12'' = buildCommand ''&U'' ''08000012''"
    by (simp only:)
  with asc same bytes show ?thesis by blast
qed

text \<open>
  With a nozzle that is not ASCII the two frames are the same string, but the JavaScript
  client writes one byte for the character and the Go client its two UTF-8 bytes.
\<close>

lemma wire_differs_for_non_ascii_nozzle:
  "changePriceCommand [CHR 0xE9] ''0'' ''1234'' = ChangePriceCommand [CHR 0xE9] ''0'' ''1234''
   \<and> asciiBytes (changePriceCommand [CHR 0xE9] ''0'' ''1234'') \<noteq> utf8Bytes (ChangePriceCommand [CHR 0xE9] ''0'' ''1234'')"
  by code_simp

end
